theory Spec2Isabelle
  imports Main "HOL-Library.Char_ord" "HOL-Library.List_Lexorder" "HOL-Library.Multiset" "HOL-Library.AList"
begin

section \<open>Go standard-library functions used by the brew pipe\<close>

text \<open>
  A Go string is a sequence of bytes, modelled as \<^typ>\<open>string\<close> (a list of 8-bit
  characters). Go compares strings bytewise, which is the lexicographic order on
  \<^typ>\<open>char list\<close>. The rune-based functions below (\<open>Title\<close>, \<open>TrimSpace\<close>) are
  modelled on ASCII input: a byte above \<open>0x7F\<close> is copied unchanged and is neither a
  separator nor white space.
\<close>

definition newline :: char where
  "newline = CHR 0x0A"

definition carriageReturn :: char where
  "carriageReturn = CHR 0x0D"


text \<open>\<open>strings.ReplaceAll(s, old, new)\<close>: the non-overlapping instances of \<open>old\<close>, found
  from the left, are replaced by \<open>new\<close>; an empty \<open>old\<close> matches before every character
  and at the end.\<close>

function ReplaceAll :: "string \<Rightarrow> string \<Rightarrow> string \<Rightarrow> string" where
  "ReplaceAll s old new =
     (if old = [] then new @ concat (map (\<lambda>c. c # new) s)
      else if s = [] then []
      else if take (length old) s = old then new @ ReplaceAll (drop (length old) s) old new
      else hd s # ReplaceAll (tl s) old new)"
  by pat_completeness auto
termination
  by (relation "measure (\<lambda>(s, old, new). length s)") auto

declare ReplaceAll.simps [simp del]

text \<open>\<open>strings.isSeparator\<close>: ASCII letters, digits and the underscore are not
  separators, every other ASCII character is.\<close>

definition isSeparator :: "char \<Rightarrow> bool" where
  "isSeparator r =
     (if (of_char r :: nat) \<le> 0x7F then
        (if CHR ''0'' \<le> r \<and> r \<le> CHR ''9'' then False
         else if CHR ''a'' \<le> r \<and> r \<le> CHR ''z'' then False
         else if CHR ''A'' \<le> r \<and> r \<le> CHR ''Z'' then False
         else if r = CHR ''_'' then False
         else True)
      else False)"

text \<open>\<open>unicode.ToTitle\<close> on ASCII: a lower-case letter becomes its upper-case letter.\<close>

definition ToTitle :: "char \<Rightarrow> char" where
  "ToTitle r = (if CHR ''a'' \<le> r \<and> r \<le> CHR ''z'' then char_of (of_char r - (32::nat)) else r)"

text \<open>\<open>strings.Title\<close>: the closure remembers the previous character, starting from a
  space; a character that follows a separator is mapped to title case.\<close>

fun titleMap :: "char \<Rightarrow> string \<Rightarrow> string" where
  "titleMap prev [] = []"
| "titleMap prev (r # rs) =
     (if isSeparator prev then ToTitle r # titleMap r rs else r # titleMap r rs)"

definition Title :: "string \<Rightarrow> string" where
  "Title s = titleMap (CHR '' '') s"

text \<open>\<open>unicode.IsSpace\<close> on ASCII: tab, line feed, vertical tab, form feed, carriage
  return and space.\<close>

definition isSpace :: "char \<Rightarrow> bool" where
  "isSpace r = (r = CHR 0x09 \<or> r = CHR 0x0A \<or> r = CHR 0x0B \<or> r = CHR 0x0C \<or> r = CHR 0x0D \<or> r = CHR '' '')"

definition TrimSpace :: "string \<Rightarrow> string" where
  "TrimSpace s = rev (dropWhile isSpace (rev (dropWhile isSpace s)))"

text \<open>\<open>strings.TrimRight(s, cutset)\<close> removes every trailing character that occurs in
  \<open>cutset\<close>.\<close>

definition TrimRight :: "string \<Rightarrow> string \<Rightarrow> string" where
  "TrimRight s cutset = rev (dropWhile (\<lambda>c. List.member cutset c) (rev s))"

text \<open>\<open>strings.Split(s, sep)\<close>: the substrings between the instances of \<open>sep\<close>; with a
  non-empty \<open>sep\<close> the result has at least one element. \<open>splitFrom cur s sep\<close> holds the
  piece read so far in \<open>cur\<close>.\<close>

function splitFrom :: "string \<Rightarrow> string \<Rightarrow> string \<Rightarrow> string list" where
  "splitFrom cur s sep =
     (if s = [] then [cur]
      else if sep \<noteq> [] \<and> take (length sep) s = sep then cur # splitFrom [] (drop (length sep) s) sep
      else splitFrom (cur @ [hd s]) (tl s) sep)"
  by pat_completeness auto
termination
  by (relation "measure (\<lambda>(cur, s, sep). length s)") auto

declare splitFrom.simps [simp del]

definition Split :: "string \<Rightarrow> string \<Rightarrow> string list" where
  "Split s sep = (if sep = [] then map (\<lambda>c. [c]) s else splitFrom [] s sep)"

section \<open>The brew pipe: pure helpers\<close>

text \<open>\<open>split\<close> (brew.go, line 454).\<close>

definition split :: "string \<Rightarrow> string list" where
  "split s =
     (let strings = Split (TrimSpace s) [newline]
      in if length strings = 1 \<and> strings ! 0 = [] then [] else strings)"

text \<open>\<open>formulaNameFor\<close> (brew.go, line 466).\<close>

definition formulaNameFor :: "string \<Rightarrow> string" where
  "formulaNameFor name =
     (let name = ReplaceAll name ''-'' '' '';
          name = ReplaceAll name ''_'' '' '';
          name = ReplaceAll name ''.'' '''';
          name = ReplaceAll name ''@'' ''AT''
      in ReplaceAll (Title name) '' '' '''')"

text \<open>\<open>strconv.Quote\<close>, which \<open>fmt.Sprintf\<close> applies for the verb \<open>%q\<close>: the string in
  double quotes, with the double quote, the backslash and the ASCII control characters
  escaped.\<close>

definition hexDigit :: "nat \<Rightarrow> char" where
  "hexDigit n = ''0123456789abcdef'' ! (n mod 16)"

definition quoteChar :: "char \<Rightarrow> string" where
  "quoteChar c =
     (if c = CHR 0x22 then [CHR 0x5C, CHR 0x22]
      else if c = CHR 0x5C then [CHR 0x5C, CHR 0x5C]
      else if c = CHR 0x07 then [CHR 0x5C, CHR ''a'']
      else if c = CHR 0x08 then [CHR 0x5C, CHR ''b'']
      else if c = CHR 0x0C then [CHR 0x5C, CHR ''f'']
      else if c = CHR 0x0A then [CHR 0x5C, CHR ''n'']
      else if c = CHR 0x0D then [CHR 0x5C, CHR ''r'']
      else if c = CHR 0x09 then [CHR 0x5C, CHR ''t'']
      else if c = CHR 0x0B then [CHR 0x5C, CHR ''v'']
      else if (of_char c :: nat) < 0x20 \<or> c = CHR 0x7F
        then [CHR 0x5C, CHR ''x'', hexDigit (of_char c div 16), hexDigit (of_char c)]
      else [c])"

definition Quote :: "string \<Rightarrow> string" where
  "Quote s = [CHR 0x22] @ concat (map quoteChar s) @ [CHR 0x22]"

text \<open>\<open>sort.Slice(x, less)\<close>, where \<open>less\<close> compares two positions of the slice being
  sorted. The model is the insertion sort that Go runs on a slice of at most 12
  elements (\<open>insertionSortLessFunc\<close>): position \<open>i\<close> is moved left while it is less than
  its left neighbour. On longer slices Go switches to pattern-defeating quicksort,
  which may order elements that \<open>less\<close> does not distinguish differently.\<close>

definition swap :: "'a list \<Rightarrow> nat \<Rightarrow> nat \<Rightarrow> 'a list" where
  "swap data i j = data[i := data ! j, j := data ! i]"

fun insertionInner :: "('a list \<Rightarrow> nat \<Rightarrow> nat \<Rightarrow> bool) \<Rightarrow> 'a list \<Rightarrow> nat \<Rightarrow> 'a list" where
  "insertionInner lessFn data 0 = data"
| "insertionInner lessFn data (Suc j) =
     (if lessFn data (Suc j) j then insertionInner lessFn (swap data (Suc j) j) j else data)"

definition sortSlice :: "('a list \<Rightarrow> nat \<Rightarrow> nat \<Rightarrow> bool) \<Rightarrow> 'a list \<Rightarrow> 'a list" where
  "sortSlice lessFn data = foldl (insertionInner lessFn) data [1..<length data]"

section \<open>Data model\<close>

text \<open>The errors of the pipe. \<open>ErrNoArchivesFound\<close> keeps the three fields of the Go
  struct in its order (\<open>goarm\<close>, \<open>goamd64\<close>, \<open>ids\<close>); \<open>ErrSkip\<close> is the value of
  \<open>pipe.Skip\<close>; \<open>ErrMessage\<close> is an error made by \<open>fmt.Errorf\<close> or returned by an
  external collaborator; \<open>ErrWrap\<close> is \<open>fmt.Errorf\<close> with \<open>%w\<close>; \<open>ErrTooLong\<close> is
  \<open>bufio.ErrTooLong\<close>.\<close>

datatype error =
    ErrMultipleArchivesSameOS
  | ErrNoArchivesFound (goarm: string) (goamd64: string) (ids: "string list")
  | ErrSkip string
  | ErrMessage string
  | ErrWrap string error
  | ErrTooLong

text \<open>Modelled from the spec: \<open>pipe.IsSkip\<close> of the package \<open>internal/pipe\<close>, which
  recognises the distinct skip signal that the caller treats as non-fatal, also under a
  wrapping error.\<close>

fun IsSkip :: "error \<Rightarrow> bool" where
  "IsSkip (ErrSkip reason) = True"
| "IsSkip (ErrWrap msg e) = IsSkip e"
| "IsSkip e = False"

text \<open>\<open>ErrNoArchivesFound.Error\<close> (brew.go, line 40); \<open>%v\<close> prints a slice of strings
  between brackets, its elements separated by spaces.\<close>

fun joinWith :: "string \<Rightarrow> string list \<Rightarrow> string" where
  "joinWith sep [] = []"
| "joinWith sep [x] = x"
| "joinWith sep (x # y # xs) = x @ sep @ joinWith sep (y # xs)"

definition ErrNoArchivesFound_Error :: "error \<Rightarrow> string" where
  "ErrNoArchivesFound_Error e =
     ''no linux/macos archives found matching goos=[darwin linux] goarch=[amd64 arm64 arm] goamd64=''
       @ goamd64 e @ '' goarm='' @ goarm e @ '' ids=['' @ joinWith '' '' (ids e) @ '']''"

text \<open>The types of \<open>pkg/config\<close> that the pipe reads, with the fields it uses.\<close>

record commitAuthor =
  ca_Name :: string
  ca_Email :: string

record pullRequestBase =
  base_Owner :: string
  base_Name :: string
  base_Branch :: string

record pullRequest =
  pr_Enabled :: bool
  pr_Base :: pullRequestBase
  pr_Draft :: bool

record gitRepoRef =
  git_URL :: string

record repoRef =
  ref_Owner :: string
  ref_Name :: string
  ref_Token :: string
  ref_Branch :: string
  ref_Git :: gitRepoRef
  ref_PullRequest :: pullRequest

record homebrewDependency =
  dep_Name :: string
  dep_Type :: string
  dep_Version :: string

text \<open>\<open>config.Homebrew\<close>. In Go \<open>Dependencies\<close> is a slice, and copying the struct
  copies the slice header only: the copy and the original share one backing array. The
  field therefore holds the address of the array, whose elements live in the store
  \<open>slices\<close> of the context below. The other slices of the struct are never written
  through and are kept as lists.\<close>

record homebrew =
  brew_Name :: string
  brew_Repository :: repoRef
  brew_CommitAuthor :: commitAuthor
  brew_CommitMessageTemplate :: string
  brew_Folder :: string
  brew_Caveats :: string
  brew_Install :: string
  brew_ExtraInstall :: string
  brew_PostInstall :: string
  brew_Dependencies :: nat
  brew_Test :: string
  brew_Conflicts :: "string list"
  brew_Description :: string
  brew_Homepage :: string
  brew_License :: string
  brew_SkipUpload :: string
  brew_DownloadStrategy :: string
  brew_URLTemplate :: string
  brew_CustomRequire :: string
  brew_CustomBlock :: string
  brew_IDs :: "string list"
  brew_Goarm :: string
  brew_Goamd64 :: string
  brew_Service :: string
  brew_Plist :: string

text \<open>Modelled from the spec: the artifact of the package \<open>internal/artifact\<close>. The
  open-ended map of extra attributes is a typed accessor per known key; an absent key
  is \<open>None\<close>, and \<open>ExtraOr\<close> falls back to its default.\<close>

datatype artifactType =
    UploadableArchive
  | UploadableBinary
  | UploadableFile
  | UploadableSourceArchive
  | Binary
  | Checksum
  | BrewTap

record extras =
  ExtraID :: "string option"
  ExtraFormat :: "string option"
  ExtraBinary :: "string option"
  ExtraBinaries :: "string list option"
  ExtraReplaces :: "bool option"
  brewConfigExtra :: "homebrew option"

record artifact =
  art_Name :: string
  art_Path :: string
  art_Goos :: string
  art_Goarch :: string
  art_Goarm :: string
  art_Goamd64 :: string
  art_Type :: artifactType
  art_Extra :: extras

definition ExtraOr :: "'a option \<Rightarrow> 'a \<Rightarrow> 'a" where
  "ExtraOr extra dflt = (case extra of None \<Rightarrow> dflt | Some v \<Rightarrow> v)"

text \<open>\<open>releasePackage\<close> and \<open>templateData\<close>, with the fields that \<open>dataFor\<close> fills.\<close>

record releasePackage =
  pkg_DownloadURL :: string
  pkg_SHA256 :: string
  pkg_OS :: string
  pkg_Arch :: string
  pkg_DownloadStrategy :: string
  pkg_Install :: "string list"

record templateData =
  td_Name :: string
  td_Desc :: string
  td_Homepage :: string
  td_Version :: string
  td_License :: string
  td_Caveats :: "string list"
  td_Plist :: string
  td_PostInstall :: "string list"
  td_Dependencies :: "homebrewDependency list"
  td_Conflicts :: "string list"
  td_Tests :: "string list"
  td_CustomRequire :: string
  td_CustomBlock :: "string list"
  td_LinuxPackages :: "releasePackage list"
  td_MacOSPackages :: "releasePackage list"
  td_Service :: "string list"
  td_HasOnlyAmd64MacOsPkg :: bool

text \<open>The hosting clients of \<open>internal/client\<close>: a client of a hosting API, which may
  or may not implement \<open>PullRequestOpener\<close>, and the generic git client made by
  \<open>NewGitUploadClient\<close> for a branch.\<close>

datatype client =
    HostingClient string bool
  | GitUploadClient string

fun PullRequestOpener :: "client \<Rightarrow> bool" where
  "PullRequestOpener (HostingClient name opener) = opener"
| "PullRequestOpener (GitUploadClient branch) = False"

record repo =
  repo_Owner :: string
  repo_Name :: string
  repo_Branch :: string
  repo_GitURL :: string

text \<open>The calls made on the network, in order.\<close>

datatype netcall =
    CreateFileCall client commitAuthor repo string string string
  | OpenPullRequestCall client repo repo string bool

text \<open>The context of a run: the release values and the configuration that the pipe
  reads, the artifact registry, the store of the backing arrays of the \<open>Dependencies\<close>
  slices, and what the run has done to the file system and the network so far
  (directories made, files written as path and content, calls made).\<close>

record Context =
  Version :: string
  Prerelease :: string
  Dist :: string
  Brews :: "homebrew list"
  Artifacts :: "artifact list"
  slices :: "nat \<Rightarrow> homebrewDependency list"
  madeDirs :: "string list"
  writtenFiles :: "(string \<times> string) list"
  network :: "netcall list"

text \<open>The external collaborators, taken as parameters: the placeholder-substitution
  engine (\<open>tmpl.New(ctx).Apply\<close>, and \<open>WithArtifact(art).Apply\<close>), the checksum of an
  artifact, the URL template of the release host, \<open>client.TemplateRef\<close>,
  \<open>client.RepoFromRef\<close>, \<open>client.NewIfToken\<close>, \<open>commitauthor.Get\<close>, the execution of
  the formula template of the package, the path functions of the standard library,
  and the outcomes of the file-system and network calls.\<close>

record env =
  tmplApply :: "Context \<Rightarrow> string \<Rightarrow> error + string"
  tmplApplyArtifact :: "Context \<Rightarrow> artifact \<Rightarrow> string \<Rightarrow> error + string"
  artChecksum :: "artifact \<Rightarrow> error + string"
  ReleaseURLTemplate :: "client \<Rightarrow> Context \<Rightarrow> error + string"
  TemplateRef :: "Context \<Rightarrow> repoRef \<Rightarrow> error + repoRef"
  RepoFromRef :: "repoRef \<Rightarrow> repo"
  NewIfToken :: "Context \<Rightarrow> client \<Rightarrow> string \<Rightarrow> error + client"
  commitauthorGet :: "Context \<Rightarrow> commitAuthor \<Rightarrow> error + commitAuthor"
  executeTemplate :: "templateData \<Rightarrow> error + string"
  filepathJoin :: "string list \<Rightarrow> string"
  filepathDir :: "string \<Rightarrow> string"
  pathJoin :: "string list \<Rightarrow> string"
  osMkdirAll :: "string \<Rightarrow> error option"
  osWriteFile :: "string \<Rightarrow> string \<Rightarrow> error option"
  osReadFile :: "string \<Rightarrow> error + string"
  clCreateFile :: "client \<Rightarrow> repo \<Rightarrow> string \<Rightarrow> string \<Rightarrow> error option"
  clOpenPullRequest :: "client \<Rightarrow> repo \<Rightarrow> repo \<Rightarrow> error option"

section \<open>Selection of the artifacts\<close>

text \<open>Modelled from the spec: the filters of the package \<open>internal/artifact\<close>. A filter
  is a predicate on one artifact; \<open>Or\<close> and \<open>And\<close> compose filters; the other filters
  compare one attribute of the artifact. \<open>OnlyReplacingUnibins\<close> keeps the canonical
  representative where a universal binary replaces the single-architecture ones, and
  \<open>ByIDs\<close> keeps the artifacts whose identifier is in the allowlist.\<close>

definition Or :: "(artifact \<Rightarrow> bool) list \<Rightarrow> artifact \<Rightarrow> bool" where
  "Or filters a = list_ex (\<lambda>f. f a) filters"

definition And :: "(artifact \<Rightarrow> bool) list \<Rightarrow> artifact \<Rightarrow> bool" where
  "And filters a = list_all (\<lambda>f. f a) filters"

definition ByGoos :: "string \<Rightarrow> artifact \<Rightarrow> bool" where
  "ByGoos s a = (art_Goos a = s)"

definition ByGoarch :: "string \<Rightarrow> artifact \<Rightarrow> bool" where
  "ByGoarch s a = (art_Goarch a = s)"

definition ByGoarm :: "string \<Rightarrow> artifact \<Rightarrow> bool" where
  "ByGoarm s a = (art_Goarm a = s)"

definition ByGoamd64 :: "string \<Rightarrow> artifact \<Rightarrow> bool" where
  "ByGoamd64 s a = (art_Goamd64 a = s)"

definition ByType :: "artifactType \<Rightarrow> artifact \<Rightarrow> bool" where
  "ByType t a = (art_Type a = t)"

definition ByFormats :: "string list \<Rightarrow> artifact \<Rightarrow> bool" where
  "ByFormats formats a = list_ex (\<lambda>format. ExtraOr (ExtraFormat (art_Extra a)) [] = format) formats"

definition ByIDs :: "string list \<Rightarrow> artifact \<Rightarrow> bool" where
  "ByIDs idents a = list_ex (\<lambda>ident. ExtraOr (ExtraID (art_Extra a)) [] = ident) idents"

definition OnlyReplacingUnibins :: "artifact \<Rightarrow> bool" where
  "OnlyReplacingUnibins a = ExtraOr (ExtraReplaces (art_Extra a)) True"

text \<open>The filters that \<open>doRun\<close> composes (brew.go, lines 195 to 223).\<close>

definition brewFilters :: "homebrew \<Rightarrow> (artifact \<Rightarrow> bool) list" where
  "brewFilters brew =
     (let filters =
        [Or [ByGoos ''darwin'', ByGoos ''linux''],
         Or [And [ByGoarch ''amd64'', ByGoamd64 (brew_Goamd64 brew)],
             ByGoarch ''arm64'',
             ByGoarch ''all'',
             And [ByGoarch ''arm'', ByGoarm (brew_Goarm brew)]],
         Or [And [ByFormats [''zip'', ''tar.gz''], ByType UploadableArchive],
             ByType UploadableBinary],
         OnlyReplacingUnibins]
      in if length (brew_IDs brew) > 0 then filters @ [ByIDs (brew_IDs brew)] else filters)"

section \<open>Install instructions\<close>

text \<open>A Go map is an association list with distinct keys. Go ranges over a map in an
  unspecified order; \<open>keys\<close> (brew.go, line 362) is only called where its result is
  sorted next, so the order that the model keeps is not observable.\<close>

definition keys :: "(string \<times> bool) list \<Rightarrow> string list" where
  "keys m = map fst m"

text \<open>The map of inferred install lines that \<open>installs\<close> builds from the kind of the
  artifact (brew.go, lines 343 to 353).\<close>

definition installMap :: "artifact \<Rightarrow> (string \<times> bool) list" where
  "installMap art =
     (case art_Type art of
        UploadableBinary \<Rightarrow>
          (let name = art_Name art;
               bin = ExtraOr (ExtraBinary (art_Extra art)) (art_Name art)
           in AList.update (''bin.install '' @ Quote name @ '' => '' @ Quote bin) True [])
      | UploadableArchive \<Rightarrow>
          foldl (\<lambda>m bin. AList.update (''bin.install '' @ Quote bin) True m) []
            (ExtraOr (ExtraBinaries (art_Extra art)) [])
      | _ \<Rightarrow> [])"

text \<open>\<open>installs\<close> (brew.go, line 327); \<open>sort.Strings\<close> sorts in the bytewise order of
  strings.\<close>

definition installs :: "env \<Rightarrow> Context \<Rightarrow> homebrew \<Rightarrow> artifact \<Rightarrow> error + string list" where
  "installs e ctx cfg art =
     (case tmplApplyArtifact e ctx art (brew_ExtraInstall cfg) of
        Inl err \<Rightarrow> Inl err
      | Inr extraInstall \<Rightarrow>
          (case tmplApplyArtifact e ctx art (brew_Install cfg) of
             Inl err \<Rightarrow> Inl err
           | Inr install \<Rightarrow>
               if install \<noteq> [] then Inr (split install @ split extraInstall)
               else (let result = sort (keys (installMap art))
                     in Inr (result @ split extraInstall))))"

section \<open>Assembly of the template data\<close>

text \<open>\<open>lessFnFor\<close> (brew.go, line 450): the closure reads the slice that is being
  sorted.\<close>

definition lessFnFor :: "releasePackage list \<Rightarrow> nat \<Rightarrow> nat \<Rightarrow> bool" where
  "lessFnFor list i j =
     (pkg_OS (list ! i) > pkg_OS (list ! j) \<and> pkg_Arch (list ! i) > pkg_Arch (list ! j))"

text \<open>\<open>counts[key]++\<close> on a map from strings to integers.\<close>

definition increment :: "(string \<times> nat) list \<Rightarrow> string \<Rightarrow> (string \<times> nat) list" where
  "increment counts key =
     AList.update key ((case map_of counts key of None \<Rightarrow> 0 | Some v \<Rightarrow> v) + 1) counts"

text \<open>The loop over the artifacts of \<open>dataFor\<close> (brew.go, lines 392 to 433). It
  returns the data and the counts reached, and the error that stopped it, if any. The
  loop assigns to the \<open>URLTemplate\<close> of its own copy of the recipe.\<close>

fun dataForLoop ::
  "env \<Rightarrow> Context \<Rightarrow> client \<Rightarrow> homebrew \<Rightarrow> artifact list \<Rightarrow> templateData \<Rightarrow> (string \<times> nat) list
     \<Rightarrow> (templateData \<times> (string \<times> nat) list) \<times> error option" where
  "dataForLoop e ctx cl cfg [] result counts = ((result, counts), None)"
| "dataForLoop e ctx cl cfg (art # arts) result counts =
     (case artChecksum e art of
        Inl err \<Rightarrow> ((result, counts), Some err)
      | Inr sha256 \<Rightarrow>
          (case (if brew_URLTemplate cfg = []
                 then (case ReleaseURLTemplate e cl ctx of
                         Inl err \<Rightarrow> Inl err
                       | Inr url \<Rightarrow> Inr (cfg\<lparr>brew_URLTemplate := url\<rparr>))
                 else Inr cfg) of
             Inl err \<Rightarrow> ((result, counts), Some err)
           | Inr cfg \<Rightarrow>
               (case tmplApplyArtifact e ctx art (brew_URLTemplate cfg) of
                  Inl err \<Rightarrow> ((result, counts), Some err)
                | Inr url \<Rightarrow>
                    (case installs e ctx cfg art of
                       Inl err \<Rightarrow> ((result, counts), Some err)
                     | Inr install \<Rightarrow>
                         (let pkg = \<lparr>pkg_DownloadURL = url,
                                     pkg_SHA256 = sha256,
                                     pkg_OS = art_Goos art,
                                     pkg_Arch = art_Goarch art,
                                     pkg_DownloadStrategy = brew_DownloadStrategy cfg,
                                     pkg_Install = install\<rparr>;
                              counts = increment counts (pkg_OS pkg @ pkg_Arch pkg);
                              result =
                                (if pkg_OS pkg = ''darwin''
                                 then result\<lparr>td_MacOSPackages := td_MacOSPackages result @ [pkg]\<rparr>
                                 else if pkg_OS pkg = ''linux''
                                 then result\<lparr>td_LinuxPackages := td_LinuxPackages result @ [pkg]\<rparr>
                                 else result)
                          in dataForLoop e ctx cl cfg arts result counts)))))"

text \<open>\<open>dataFor\<close> (brew.go, line 370). \<open>sort.Slice\<close> sorts the backing array of
  \<open>cfg.Dependencies\<close> in place, which is the array of the caller's recipe: the store is
  updated at its address, and the updated context is returned beside the two results of
  the Go function.\<close>

definition dataFor ::
  "env \<Rightarrow> Context \<Rightarrow> homebrew \<Rightarrow> client \<Rightarrow> artifact list \<Rightarrow> (templateData \<times> error option) \<times> Context" where
  "dataFor e ctx cfg cl artifacts =
     (let dependencies =
            sortSlice (\<lambda>deps i j. dep_Name (deps ! i) < dep_Name (deps ! j))
              (slices ctx (brew_Dependencies cfg));
          ctx = ctx\<lparr>slices := (slices ctx)(brew_Dependencies cfg := dependencies)\<rparr>;
          result = \<lparr>td_Name = formulaNameFor (brew_Name cfg),
                    td_Desc = brew_Description cfg,
                    td_Homepage = brew_Homepage cfg,
                    td_Version = Version ctx,
                    td_License = brew_License cfg,
                    td_Caveats = split (brew_Caveats cfg),
                    td_Plist = brew_Plist cfg,
                    td_PostInstall = split (brew_PostInstall cfg),
                    td_Dependencies = dependencies,
                    td_Conflicts = brew_Conflicts cfg,
                    td_Tests = split (brew_Test cfg),
                    td_CustomRequire = brew_CustomRequire cfg,
                    td_CustomBlock = split (brew_CustomBlock cfg),
                    td_LinuxPackages = [],
                    td_MacOSPackages = [],
                    td_Service = split (brew_Service cfg),
                    td_HasOnlyAmd64MacOsPkg = False\<rparr>
      in case dataForLoop e ctx cl cfg artifacts result [] of
           ((result, counts), Some err) \<Rightarrow> ((result, Some err), ctx)
         | ((result, counts), None) \<Rightarrow>
             if list_ex (\<lambda>(key, v). v > 1) counts
             then ((result, Some ErrMultipleArchivesSameOS), ctx)
             else (let result =
                         (if length (td_MacOSPackages result) = 1
                               \<and> pkg_Arch (td_MacOSPackages result ! 0) = ''amd64''
                          then result\<lparr>td_HasOnlyAmd64MacOsPkg := True\<rparr>
                          else result);
                       result = result\<lparr>td_LinuxPackages := sortSlice lessFnFor (td_LinuxPackages result)\<rparr>;
                       result = result\<lparr>td_MacOSPackages := sortSlice lessFnFor (td_MacOSPackages result)\<rparr>
                   in ((result, None), ctx)))"

section \<open>Rendering\<close>

text \<open>\<open>bufio.ScanLines\<close> drops one trailing carriage return of a line.\<close>

definition dropCR :: "string \<Rightarrow> string" where
  "dropCR data = (if data \<noteq> [] \<and> last data = carriageReturn then butlast data else data)"

text \<open>\<open>bufio.MaxScanTokenSize\<close>: a scanner with the default buffer stops with
  \<open>ErrTooLong\<close> at a line of this many bytes or more. It is compared with a length,
  which is an \<open>int\<close> in Go.\<close>

definition MaxScanTokenSize :: int where
  "MaxScanTokenSize = 64 * 1024"

text \<open>The sanitizing loop of \<open>doBuildFormula\<close> (brew.go, lines 310 to 324): the scanner
  yields the text up to the next line feed (or to the end of the input), without a
  trailing carriage return; the loop trims the spaces at its right end and writes it,
  followed by a line feed, to \<open>out\<close>.\<close>

function sanitizeLoop :: "string \<Rightarrow> string \<Rightarrow> error + string" where
  "sanitizeLoop content out =
     (if content = [] then Inr out
      else if MaxScanTokenSize \<le> int (length (takeWhile (\<lambda>c. c \<noteq> newline) content)) then Inl ErrTooLong
      else sanitizeLoop (drop 1 (dropWhile (\<lambda>c. c \<noteq> newline) content))
             (out @ TrimRight (dropCR (takeWhile (\<lambda>c. c \<noteq> newline) content)) '' '' @ [newline]))"
  by pat_completeness auto
termination
proof (relation "measure (\<lambda>(content, out). length content)")
  show "wf (measure (\<lambda>(content, out). length content))"
    by simp
next
  fix content out :: string
  assume "content \<noteq> []"
  then have "length (drop 1 (dropWhile (\<lambda>c. c \<noteq> newline) content)) < length content"
    using length_dropWhile_le [of "\<lambda>c. c \<noteq> newline" content] by (cases content) auto
  then show "((drop 1 (dropWhile (\<lambda>c. c \<noteq> newline) content),
               out @ TrimRight (dropCR (takeWhile (\<lambda>c. c \<noteq> newline) content)) '' '' @ [newline]),
              (content, out)) \<in> measure (\<lambda>(content, out). length content)"
    by simp
qed

declare sanitizeLoop.simps [simp del]

text \<open>\<open>doBuildFormula\<close> (brew.go, line 292): the structural pass, the substitution pass
  and the sanitizing loop, which starts from the emptied buffer.\<close>

definition doBuildFormula :: "env \<Rightarrow> Context \<Rightarrow> templateData \<Rightarrow> error + string" where
  "doBuildFormula e ctx data =
     (case executeTemplate e data of
        Inl err \<Rightarrow> Inl err
      | Inr out \<Rightarrow>
          (case tmplApply e ctx out of
             Inl err \<Rightarrow> Inl err
           | Inr content \<Rightarrow> sanitizeLoop content []))"

text \<open>\<open>buildFormula\<close> (brew.go, line 284).\<close>

definition buildFormula ::
  "env \<Rightarrow> Context \<Rightarrow> homebrew \<Rightarrow> client \<Rightarrow> artifact list \<Rightarrow> (error + string) \<times> Context" where
  "buildFormula e ctx brew cl artifacts =
     (case dataFor e ctx brew cl artifacts of
        ((data, Some err), ctx) \<Rightarrow> (Inl err, ctx)
      | ((data, None), ctx) \<Rightarrow> (doBuildFormula e ctx data, ctx))"

text \<open>\<open>buildFormulaPath\<close> (brew.go, line 280).\<close>

definition buildFormulaPath :: "env \<Rightarrow> string \<Rightarrow> string \<Rightarrow> string" where
  "buildFormulaPath e folder filename = pathJoin e [folder, filename]"

section \<open>Run and publish\<close>

text \<open>\<open>doRun\<close> (brew.go, line 190). The recipe is a parameter passed by value: the
  assignments to \<open>brew.Name\<close>, \<open>brew.Repository\<close> and \<open>brew.SkipUpload\<close> change the
  local copy. A directory or a file is recorded in the context when the call that makes
  it returns no error.\<close>

definition doRun :: "env \<Rightarrow> Context \<Rightarrow> homebrew \<Rightarrow> client \<Rightarrow> error option \<times> Context" where
  "doRun e ctx brew cl =
     (if ref_Name (brew_Repository brew) = []
      then (Some (ErrSkip ''brew.repository.name is not set''), ctx)
      else
        (let archives = filter (And (brewFilters brew)) (Artifacts ctx)
         in if length archives = 0
            then (Some (ErrNoArchivesFound (brew_Goarm brew) (brew_Goamd64 brew) (brew_IDs brew)), ctx)
            else
              (case tmplApply e ctx (brew_Name brew) of
                 Inl err \<Rightarrow> (Some err, ctx)
               | Inr name \<Rightarrow>
              (let brew = brew\<lparr>brew_Name := name\<rparr>
               in case TemplateRef e ctx (brew_Repository brew) of
                 Inl err \<Rightarrow> (Some err, ctx)
               | Inr ref \<Rightarrow>
              (let brew = brew\<lparr>brew_Repository := ref\<rparr>
               in case tmplApply e ctx (brew_SkipUpload brew) of
                 Inl err \<Rightarrow> (Some err, ctx)
               | Inr skipUpload \<Rightarrow>
              (let brew = brew\<lparr>brew_SkipUpload := skipUpload\<rparr>
               in case buildFormula e ctx brew cl archives of
                 (Inl err, ctx) \<Rightarrow> (Some err, ctx)
               | (Inr content, ctx) \<Rightarrow>
              (let filename = brew_Name brew @ ''.rb'';
                   path = filepathJoin e [Dist ctx, ''homebrew'', brew_Folder brew, filename]
               in case osMkdirAll e (filepathDir e path) of
                 Some err \<Rightarrow> (Some err, ctx)
               | None \<Rightarrow>
              (let ctx = ctx\<lparr>madeDirs := madeDirs ctx @ [filepathDir e path]\<rparr>
               in case osWriteFile e path content of
                 Some err \<Rightarrow> (Some (ErrWrap ''failed to write brew formula: '' err), ctx)
               | None \<Rightarrow>
              (let ctx = ctx\<lparr>writtenFiles := writtenFiles ctx @ [(path, content)]\<rparr>
               in (None,
                   ctx\<lparr>Artifacts := Artifacts ctx @
                     [\<lparr>art_Name = filename,
                       art_Path = path,
                       art_Goos = [],
                       art_Goarch = [],
                       art_Goarm = [],
                       art_Goamd64 = [],
                       art_Type = BrewTap,
                       art_Extra = \<lparr>ExtraID = None,
                                     ExtraFormat = None,
                                     ExtraBinary = None,
                                     ExtraBinaries = None,
                                     ExtraReplaces = None,
                                     brewConfigExtra = Some brew\<rparr>\<rparr>]\<rparr>))))))))))"

text \<open>\<open>runAll\<close> (brew.go, line 99): the loop ranges over the recipes of the
  configuration as they are when it starts, and hands a copy of each to \<open>doRun\<close>.\<close>

fun runAllLoop :: "env \<Rightarrow> Context \<Rightarrow> homebrew list \<Rightarrow> client \<Rightarrow> error option \<times> Context" where
  "runAllLoop e ctx [] cli = (None, ctx)"
| "runAllLoop e ctx (brew # brews) cli =
     (case doRun e ctx brew cli of
        (Some err, ctx) \<Rightarrow> (Some err, ctx)
      | (None, ctx) \<Rightarrow> runAllLoop e ctx brews cli)"

definition runAll :: "env \<Rightarrow> Context \<Rightarrow> client \<Rightarrow> error option \<times> Context" where
  "runAll e ctx cli = runAllLoop e ctx (Brews ctx) cli"

text \<open>The two calls of a client on the network; each is recorded when it is made,
  whatever it returns.\<close>

definition CreateFile ::
  "env \<Rightarrow> Context \<Rightarrow> client \<Rightarrow> commitAuthor \<Rightarrow> repo \<Rightarrow> string \<Rightarrow> string \<Rightarrow> string
     \<Rightarrow> error option \<times> Context" where
  "CreateFile e ctx cl author rp content gpath msg =
     (clCreateFile e cl rp content gpath,
      ctx\<lparr>network := network ctx @ [CreateFileCall cl author rp content gpath msg]\<rparr>)"

definition OpenPullRequest ::
  "env \<Rightarrow> Context \<Rightarrow> client \<Rightarrow> repo \<Rightarrow> repo \<Rightarrow> string \<Rightarrow> bool \<Rightarrow> error option \<times> Context" where
  "OpenPullRequest e ctx cl base head title draft =
     (clOpenPullRequest e cl base head,
      ctx\<lparr>network := network ctx @ [OpenPullRequestCall cl base head title draft]\<rparr>)"

text \<open>\<open>doPublish\<close> (brew.go, line 126). \<open>artifact.Extra\<close> fails when the formula artifact
  carries no recipe.\<close>

definition doPublish :: "env \<Rightarrow> Context \<Rightarrow> artifact \<Rightarrow> client \<Rightarrow> error option \<times> Context" where
  "doPublish e ctx formula cl =
     (case brewConfigExtra (art_Extra formula) of
        None \<Rightarrow> (Some (ErrMessage ''extra BrewConfig not found''), ctx)
      | Some brew \<Rightarrow>
          if TrimSpace (brew_SkipUpload brew) = ''true''
          then (Some (ErrSkip ''brew.skip_upload is set''), ctx)
          else if TrimSpace (brew_SkipUpload brew) = ''auto'' \<and> Prerelease ctx \<noteq> []
          then (Some (ErrSkip (''prerelease detected with '' @ [CHR 0x27] @ ''auto'' @ [CHR 0x27]
                                 @ '' upload, skipping homebrew publish'')), ctx)
          else
            (let rp = RepoFromRef e (brew_Repository brew);
                 gpath = buildFormulaPath e (brew_Folder brew) (art_Name formula)
             in case tmplApply e ctx (brew_CommitMessageTemplate brew) of
               Inl err \<Rightarrow> (Some err, ctx)
             | Inr msg \<Rightarrow>
            (case commitauthorGet e ctx (brew_CommitAuthor brew) of
               Inl err \<Rightarrow> (Some err, ctx)
             | Inr author \<Rightarrow>
            (case osReadFile e (art_Path formula) of
               Inl err \<Rightarrow> (Some err, ctx)
             | Inr content \<Rightarrow>
            if git_URL (ref_Git (brew_Repository brew)) \<noteq> []
            then CreateFile e ctx (GitUploadClient (repo_Branch rp)) author rp content gpath msg
            else
            (case NewIfToken e ctx cl (ref_Token (brew_Repository brew)) of
               Inl err \<Rightarrow> (Some err, ctx)
             | Inr cl \<Rightarrow>
            if \<not> pr_Enabled (ref_PullRequest (brew_Repository brew))
            then CreateFile e ctx cl author rp content gpath msg
            else if \<not> PullRequestOpener cl
            then (Some (ErrMessage ''client does not support pull requests''), ctx)
            else
            (case CreateFile e ctx cl author rp content gpath msg of
               (Some err, ctx) \<Rightarrow> (Some err, ctx)
             | (None, ctx) \<Rightarrow>
                 OpenPullRequest e ctx cl
                   \<lparr>repo_Owner = base_Owner (pr_Base (ref_PullRequest (brew_Repository brew))),
                    repo_Name = base_Name (pr_Base (ref_PullRequest (brew_Repository brew))),
                    repo_Branch = base_Branch (pr_Base (ref_PullRequest (brew_Repository brew))),
                    repo_GitURL = []\<rparr>
                   rp msg (pr_Draft (ref_PullRequest (brew_Repository brew)))))))))"

section \<open>The rules of the specification, for comparison\<close>

text \<open>The name-mangling rule in the words of the specification, character by
  character: hyphens become spaces, underscores become spaces, periods are deleted,
  \<open>@\<close> becomes the literal \<open>AT\<close>, the result is title-cased, then all spaces are
  removed.\<close>

definition formulaNameSpec :: "string \<Rightarrow> string" where
  "formulaNameSpec name =
     filter (\<lambda>c. c \<noteq> CHR '' '')
       (Title
         (concat (map (\<lambda>c. if c = CHR ''@'' then ''AT'' else [c])
           (filter (\<lambda>c. c \<noteq> CHR ''.'')
             (map (\<lambda>c. if c = CHR ''_'' then CHR '' '' else c)
               (map (\<lambda>c. if c = CHR ''-'' then CHR '' '' else c) name))))))"

text \<open>The lines of a text, as the specification speaks of them: the pieces between
  the line feeds; a text that ends with a line feed has no further, empty line.\<close>

fun textLines :: "string \<Rightarrow> string list" where
  "textLines [] = []"
| "textLines (c # cs) =
     (if c = newline then [] # textLines cs
      else (case textLines cs of [] \<Rightarrow> [[c]] | l # ls \<Rightarrow> (c # l) # ls))"


section \<open>Example inputs\<close>



text \<open>An environment in which every external collaborator succeeds: the substitution
  engine returns its input, the checksum and the URL template are fixed strings, paths
  are joined with a slash, and the file system and the network accept every call.\<close>

definition okEnv :: env where
  "okEnv =
     \<lparr>tmplApply = (\<lambda>ctx s. Inr s),
      tmplApplyArtifact = (\<lambda>ctx art s. Inr s),
      artChecksum = (\<lambda>art. Inr ''0123abcd''),
      ReleaseURLTemplate = (\<lambda>cl ctx. Inr ''https://example.com/download''),
      TemplateRef = (\<lambda>ctx r. Inr r),
      RepoFromRef = (\<lambda>r. \<lparr>repo_Owner = ref_Owner r,
                             repo_Name = ref_Name r,
                             repo_Branch = ref_Branch r,
                             repo_GitURL = git_URL (ref_Git r)\<rparr>),
      NewIfToken = (\<lambda>ctx cl token. Inr cl),
      commitauthorGet = (\<lambda>ctx author. Inr author),
      executeTemplate = (\<lambda>data. Inr (''class '' @ td_Name data)),
      filepathJoin = (\<lambda>parts. joinWith ''/'' (filter (\<lambda>part. part \<noteq> []) parts)),
      filepathDir = (\<lambda>path. ''dist/homebrew''),
      pathJoin = (\<lambda>parts. joinWith ''/'' (filter (\<lambda>part. part \<noteq> []) parts)),
      osMkdirAll = (\<lambda>dir. None),
      osWriteFile = (\<lambda>path content. None),
      osReadFile = (\<lambda>path. Inr ''class Foo''),
      clCreateFile = (\<lambda>cl rp content gpath. None),
      clOpenPullRequest = (\<lambda>cl base head. None)\<rparr>"

definition noExtras :: extras where
  "noExtras =
     \<lparr>ExtraID = None, ExtraFormat = None, ExtraBinary = None, ExtraBinaries = None,
      ExtraReplaces = None, brewConfigExtra = None\<rparr>"

text \<open>Uploadable binaries named \<open>foo\<close> for one platform each.\<close>

definition binaryFor :: "string \<Rightarrow> string \<Rightarrow> artifact" where
  "binaryFor goos goarch =
     \<lparr>art_Name = ''foo'', art_Path = ''dist/foo'', art_Goos = goos, art_Goarch = goarch,
      art_Goarm = [], art_Goamd64 = ''v1'', art_Type = UploadableBinary, art_Extra = noExtras\<rparr>"

text \<open>The same binary with the extra attribute \<open>Binary\<close> set to \<open>bar\<close>.\<close>

definition renamedBinary :: artifact where
  "renamedBinary = (binaryFor ''darwin'' ''arm64'')\<lparr>art_Extra := noExtras\<lparr>ExtraBinary := Some ''bar''\<rparr>\<rparr>"

text \<open>A recipe whose repository is named; every other field is empty but the two
  variant selectors. Its dependencies are the array at address 1.\<close>

definition noRepoRef :: repoRef where
  "noRepoRef =
     \<lparr>ref_Owner = [], ref_Name = [], ref_Token = [], ref_Branch = [],
      ref_Git = \<lparr>git_URL = []\<rparr>,
      ref_PullRequest = \<lparr>pr_Enabled = False,
                         pr_Base = \<lparr>base_Owner = [], base_Name = [], base_Branch = []\<rparr>,
                         pr_Draft = False\<rparr>\<rparr>"

definition tapRecipe :: homebrew where
  "tapRecipe =
     \<lparr>brew_Name = ''foo'',
      brew_Repository = noRepoRef\<lparr>ref_Owner := ''me'', ref_Name := ''homebrew-tap''\<rparr>,
      brew_CommitAuthor = \<lparr>ca_Name = ''bot'', ca_Email = ''bot@example.com''\<rparr>,
      brew_CommitMessageTemplate = ''update'',
      brew_Folder = [],
      brew_Caveats = [],
      brew_Install = [],
      brew_ExtraInstall = [],
      brew_PostInstall = [],
      brew_Dependencies = 1,
      brew_Test = [],
      brew_Conflicts = [],
      brew_Description = [],
      brew_Homepage = [],
      brew_License = [],
      brew_SkipUpload = [],
      brew_DownloadStrategy = [],
      brew_URLTemplate = [],
      brew_CustomRequire = [],
      brew_CustomBlock = [],
      brew_IDs = [],
      brew_Goarm = ''6'',
      brew_Goamd64 = ''v1'',
      brew_Service = [],
      brew_Plist = []\<rparr>"

text \<open>A context with the given recipes and artifacts, in which the array at address 1
  holds the dependencies \<open>zlib\<close> and \<open>curl\<close>, in this order.\<close>

definition dependency :: "string \<Rightarrow> homebrewDependency" where
  "dependency name = \<lparr>dep_Name = name, dep_Type = [], dep_Version = []\<rparr>"

definition contextOf :: "homebrew list \<Rightarrow> artifact list \<Rightarrow> Context" where
  "contextOf brews artifacts =
     \<lparr>Version = ''1.0.0'',
      Prerelease = [],
      Dist = ''dist'',
      Brews = brews,
      Artifacts = artifacts,
      slices = (\<lambda>a. if a = 1 then [dependency ''zlib'', dependency ''curl''] else []),
      madeDirs = [],
      writtenFiles = [],
      network = []\<rparr>"

text \<open>A formula artifact, as \<open>doRun\<close> registers it, that carries the given recipe.\<close>

definition formulaArtifact :: "homebrew \<Rightarrow> artifact" where
  "formulaArtifact brew =
     \<lparr>art_Name = ''foo.rb'', art_Path = ''dist/homebrew/foo.rb'', art_Goos = [], art_Goarch = [],
      art_Goarm = [], art_Goamd64 = [], art_Type = BrewTap,
      art_Extra = noExtras\<lparr>brewConfigExtra := Some brew\<rparr>\<rparr>"

text \<open>The recipe with pull requests enabled.\<close>

definition pullRequestRecipe :: homebrew where
  "pullRequestRecipe =
     tapRecipe\<lparr>brew_Repository :=
       (brew_Repository tapRecipe)\<lparr>ref_PullRequest :=
         \<lparr>pr_Enabled = True,
          pr_Base = \<lparr>base_Owner = ''upstream'', base_Name = ''homebrew-tap'', base_Branch = ''main''\<rparr>,
          pr_Draft = False\<rparr>\<rparr>\<rparr>"

text \<open>A hosting client that can open pull requests, and a context with the one recipe
  and one artifact that it selects.\<close>

definition gh :: client where
  "gh = HostingClient ''github'' True"

definition oneRecipeContext :: Context where
  "oneRecipeContext = contextOf [tapRecipe] [binaryFor ''darwin'' ''arm64'']"

text \<open>The same environment, in which no checksum can be computed.\<close>

definition noChecksumEnv :: env where
  "noChecksumEnv = okEnv\<lparr>artChecksum := (\<lambda>art. Inl (ErrMessage ''open dist/foo: no such file or directory''))\<rparr>"

section \<open>Properties of the name mangling\<close>

lemma ReplaceAll_char: "ReplaceAll s [c] new = concat (map (\<lambda>x. if x = c then new else [x]) s)"
proof (induction s)
  case Nil
  show ?case by (subst ReplaceAll.simps) simp
next
  case (Cons x xs)
  show ?case by (subst ReplaceAll.simps) (simp add: Cons.IH)
qed

lemma concat_map_single:
  "concat (map (\<lambda>x. if x = c then [d] else [x]) s) = map (\<lambda>x. if x = c then d else x) s"
  by (induction s) simp_all

lemma concat_map_delete:
  "concat (map (\<lambda>x. if x = c then [] else [x]) s) = filter (\<lambda>x. x \<noteq> c) s"
  by (induction s) simp_all

text \<open>
  Claim C5. \<open>formulaNameFor\<close> applies the transformations of the rule in their order:
  hyphens to spaces, underscores to spaces, periods deleted, \<open>@\<close> replaced by \<open>AT\<close>,
  title-casing, removal of all spaces. In particular \<open>foo-bar\<close> maps to \<open>FooBar\<close>, and
  in \<open>foo_bar@v6.0.0-rc\<close> the \<open>@\<close> becomes \<open>AT\<close> and the periods are gone before the
  title-casing, which gives \<open>FooBarATv600Rc\<close>.
\<close>

theorem formulaNameFor_mangling:
  "formulaNameFor name = formulaNameSpec name
   \<and> formulaNameFor ''foo-bar'' = ''FooBar''
   \<and> formulaNameFor ''foo_bar@v6.0.0-rc'' = ''FooBarATv600Rc''"
proof -
  have "formulaNameFor name = formulaNameSpec name"
    by (simp add: formulaNameFor_def formulaNameSpec_def ReplaceAll_char
        concat_map_single concat_map_delete)
  moreover have "formulaNameFor ''foo-bar'' = ''FooBar''"
    by code_simp
  moreover have "formulaNameFor ''foo_bar@v6.0.0-rc'' = ''FooBarATv600Rc''"
    by code_simp
  ultimately show ?thesis by simp
qed

theorem formulaNameFor_mangling_witness:
  "formulaNameFor ''my_tool@1.2'' = ''MyToolAT12'' \<and> formulaNameSpec ''my_tool@1.2'' = ''MyToolAT12''"
proof -
  have "formulaNameSpec ''my_tool@1.2'' = ''MyToolAT12''"
    by code_simp
  then show ?thesis
    using formulaNameFor_mangling [of "''my_tool@1.2''"] by simp
qed

section \<open>Properties of the sanitizing loop\<close>

lemma textLines_empty: "textLines cs = [] \<longleftrightarrow> cs = []"
  by (cases cs) (auto split: list.splits)
















section \<open>Properties of the run\<close>

text \<open>
  Claim C2. Whenever the composed selection filters yield zero artifacts (which
  \<open>doRun\<close> evaluates once the repository of the recipe is named), \<open>doRun\<close> fails with
  the no-archives error, and that error carries exactly the \<open>goamd64\<close>, \<open>goarm\<close> and
  \<open>ids\<close> of the recipe that were used for filtering; the context is unchanged.
\<close>

theorem doRun_no_archives:
  assumes "ref_Name (brew_Repository brew) \<noteq> []"
    and "filter (And (brewFilters brew)) (Artifacts ctx) = []"
  shows "doRun e ctx brew cl =
           (Some (ErrNoArchivesFound (brew_Goarm brew) (brew_Goamd64 brew) (brew_IDs brew)), ctx)
         \<and> goamd64 (ErrNoArchivesFound (brew_Goarm brew) (brew_Goamd64 brew) (brew_IDs brew)) = brew_Goamd64 brew
         \<and> goarm (ErrNoArchivesFound (brew_Goarm brew) (brew_Goamd64 brew) (brew_IDs brew)) = brew_Goarm brew
         \<and> ids (ErrNoArchivesFound (brew_Goarm brew) (brew_Goamd64 brew) (brew_IDs brew)) = brew_IDs brew"
  using assms by (simp add: doRun_def)

lemma windows_filtered: "filter (And (brewFilters tapRecipe)) [binaryFor ''windows'' ''amd64''] = []"
  by (simp add: And_def Or_def brewFilters_def tapRecipe_def binaryFor_def ByGoos_def)

theorem doRun_no_archives_witness:
  "doRun okEnv (contextOf [tapRecipe] [binaryFor ''windows'' ''amd64'']) tapRecipe (HostingClient ''gh'' False)
     = (Some (ErrNoArchivesFound ''6'' ''v1'' []), contextOf [tapRecipe] [binaryFor ''windows'' ''amd64''])"
proof -
  have name: "ref_Name (brew_Repository tapRecipe) \<noteq> []"
    by (simp add: tapRecipe_def)
  have none: "filter (And (brewFilters tapRecipe)) (Artifacts (contextOf [tapRecipe] [binaryFor ''windows'' ''amd64''])) = []"
    using windows_filtered by (simp add: contextOf_def)
  from doRun_no_archives [OF name none, of okEnv "HostingClient ''gh'' False"] show ?thesis
    by (simp add: tapRecipe_def)
qed

text \<open>
  Claim C9, as stated, fails: with an empty repository name \<open>doRun\<close> returns the skip
  signal of \<open>pipe.Skip\<close>, which \<open>pipe.IsSkip\<close> recognises as non-fatal, not a fatal
  configuration error.
\<close>

theorem doRun_unnamed_counterexample:
  "doRun okEnv (contextOf [] [binaryFor ''darwin'' ''arm64'']) (tapRecipe\<lparr>brew_Repository := noRepoRef\<rparr>) (HostingClient ''gh'' False)
     = (Some (ErrSkip ''brew.repository.name is not set''), contextOf [] [binaryFor ''darwin'' ''arm64''])
   \<and> IsSkip (ErrSkip ''brew.repository.name is not set'')"
  by (simp add: doRun_def noRepoRef_def)

text \<open>
  Claim C9, amended. When the target repository name of a recipe is empty, \<open>doRun\<close>
  returns at once with the skip signal \<open>brew.repository.name is not set\<close>, which is
  non-fatal, and leaves the context as it was: no directory, no file, no artifact.
\<close>

theorem doRun_unnamed_skips:
  assumes "ref_Name (brew_Repository brew) = []"
  shows "doRun e ctx brew cl = (Some (ErrSkip ''brew.repository.name is not set''), ctx)
         \<and> IsSkip (ErrSkip ''brew.repository.name is not set'')"
  using assms by (simp add: doRun_def)

theorem doRun_unnamed_skips_witness:
  "fst (doRun okEnv (contextOf [] []) (tapRecipe\<lparr>brew_Repository := noRepoRef\<rparr>) (GitUploadClient ''main''))
     = Some (ErrSkip ''brew.repository.name is not set'')
   \<and> snd (doRun okEnv (contextOf [] []) (tapRecipe\<lparr>brew_Repository := noRepoRef\<rparr>) (GitUploadClient ''main''))
     = contextOf [] []"
proof -
  have "ref_Name (brew_Repository (tapRecipe\<lparr>brew_Repository := noRepoRef\<rparr>)) = []"
    by (simp add: noRepoRef_def)
  from doRun_unnamed_skips [OF this, of okEnv "contextOf [] []" "GitUploadClient ''main''"]
  show ?thesis by simp
qed

section \<open>Properties of the publication\<close>

text \<open>
  Claim C7. For every formula artifact (an artifact that carries its recipe),
  \<open>doPublish\<close> returns a skip signal and leaves the context, and so the network,
  untouched whenever the skip-upload value of the recipe is the literal \<open>true\<close>, or it
  is \<open>auto\<close> and the release is a prerelease.
\<close>

theorem doPublish_skips:
  assumes "brewConfigExtra (art_Extra formula) = Some brew"
    and "brew_SkipUpload brew = ''true'' \<or> (brew_SkipUpload brew = ''auto'' \<and> Prerelease ctx \<noteq> [])"
  shows "\<exists>reason. doPublish e ctx formula cl = (Some (ErrSkip reason), ctx)"
proof -
  have "TrimSpace ''true'' = ''true''" "TrimSpace ''auto'' = ''auto''"
    by (simp_all add: TrimSpace_def isSpace_def)
  with assms show ?thesis
    by (auto simp: doPublish_def)
qed

theorem doPublish_skips_witness:
  "\<exists>reason. doPublish okEnv ((contextOf [] [])\<lparr>Prerelease := ''rc1''\<rparr>)
       (formulaArtifact (tapRecipe\<lparr>brew_SkipUpload := ''auto''\<rparr>)) (HostingClient ''gh'' True)
     = (Some (ErrSkip reason), (contextOf [] [])\<lparr>Prerelease := ''rc1''\<rparr>)"
proof -
  have a: "brewConfigExtra (art_Extra (formulaArtifact (tapRecipe\<lparr>brew_SkipUpload := ''auto''\<rparr>)))
             = Some (tapRecipe\<lparr>brew_SkipUpload := ''auto''\<rparr>)"
    by (simp add: formulaArtifact_def)
  have b: "brew_SkipUpload (tapRecipe\<lparr>brew_SkipUpload := ''auto''\<rparr>) = ''true''
           \<or> (brew_SkipUpload (tapRecipe\<lparr>brew_SkipUpload := ''auto''\<rparr>) = ''auto''
               \<and> Prerelease ((contextOf [] [])\<lparr>Prerelease := ''rc1''\<rparr>) \<noteq> [])"
    by simp
  from doPublish_skips [OF a b] show ?thesis .
qed

text \<open>
  Claim C8. When \<open>doPublish\<close> reaches the hosting client (the publication is not
  skipped, the commit message, the author and the file are obtained, the repository
  names no git URL and \<open>NewIfToken\<close> returns a client), pull requests are enabled and
  that client is no \<open>PullRequestOpener\<close>, then \<open>doPublish\<close> fails with the error
  \<open>client does not support pull requests\<close> and the context is unchanged: the check
  comes before \<open>CreateFile\<close>, and no call is made on the network.
\<close>

theorem doPublish_capability_first:
  assumes "brewConfigExtra (art_Extra formula) = Some brew"
    and "TrimSpace (brew_SkipUpload brew) \<noteq> ''true''"
    and "TrimSpace (brew_SkipUpload brew) \<noteq> ''auto'' \<or> Prerelease ctx = []"
    and "tmplApply e ctx (brew_CommitMessageTemplate brew) = Inr msg"
    and "commitauthorGet e ctx (brew_CommitAuthor brew) = Inr author"
    and "osReadFile e (art_Path formula) = Inr content"
    and "git_URL (ref_Git (brew_Repository brew)) = []"
    and "NewIfToken e ctx cl (ref_Token (brew_Repository brew)) = Inr hosting"
    and "pr_Enabled (ref_PullRequest (brew_Repository brew))"
    and "\<not> PullRequestOpener hosting"
  shows "doPublish e ctx formula cl = (Some (ErrMessage ''client does not support pull requests''), ctx)"
  using assms by (auto simp: doPublish_def Let_def)

theorem doPublish_capability_first_witness:
  "doPublish okEnv (contextOf [] []) (formulaArtifact pullRequestRecipe) (HostingClient ''gitea'' False)
     = (Some (ErrMessage ''client does not support pull requests''), contextOf [] [])"
proof -
  have skip: "TrimSpace [] = []"
    by (simp add: TrimSpace_def)
  show ?thesis
    by (rule doPublish_capability_first
          [where brew = pullRequestRecipe and msg = "''update''"
             and author = "\<lparr>ca_Name = ''bot'', ca_Email = ''bot@example.com''\<rparr>"
             and content = "''class Foo''" and hosting = "HostingClient ''gitea'' False"])
       (simp_all add: formulaArtifact_def pullRequestRecipe_def tapRecipe_def noRepoRef_def noExtras_def
          okEnv_def contextOf_def skip)
qed

section \<open>Properties of the install instructions\<close>

lemma distinct_installMap: "distinct (map fst (installMap art))"
proof -
  have "distinct (map fst (foldl (\<lambda>m bin. AList.update (f bin) True m) al bins))"
    if "distinct (map fst al)" for f :: "string \<Rightarrow> string" and al bins
    using that by (induction bins arbitrary: al) (simp_all add: distinct_update)
  from this [of "[]"] show ?thesis
    by (simp add: installMap_def split: artifactType.split)
qed

lemma set_installMap_archive:
  "set (map fst (foldl (\<lambda>m bin. AList.update (f bin) True m) al bins)) = set (map fst al) \<union> f ` set bins"
  by (induction bins arbitrary: al) (auto simp: dom_update)

text \<open>
  Claim C4, as stated, fails: the inferred line of an uploadable binary also depends on
  the extra attribute \<open>Binary\<close> of the artifact. Two artifacts of the same kind, name
  and bundled binaries get different install lines.
\<close>

theorem installs_counterexample:
  "art_Type renamedBinary = art_Type (binaryFor ''darwin'' ''arm64'')
   \<and> art_Name renamedBinary = art_Name (binaryFor ''darwin'' ''arm64'')
   \<and> ExtraBinaries (art_Extra renamedBinary) = ExtraBinaries (art_Extra (binaryFor ''darwin'' ''arm64''))
   \<and> installs okEnv (contextOf [] []) tapRecipe (binaryFor ''darwin'' ''arm64'')
       = Inr [''bin.install '' @ Quote ''foo'' @ '' => '' @ Quote ''foo'']
   \<and> installs okEnv (contextOf [] []) tapRecipe renamedBinary
       = Inr [''bin.install '' @ Quote ''foo'' @ '' => '' @ Quote ''bar'']
   \<and> Quote ''foo'' \<noteq> Quote ''bar''"
  by (simp add: installs_def installMap_def keys_def okEnv_def tapRecipe_def renamedBinary_def
      binaryFor_def noExtras_def ExtraOr_def split_def Split_def TrimSpace_def splitFrom.simps
      Quote_def quoteChar_def)

text \<open>
  Claim C4, amended. When the recipe has no explicit install snippet (its substituted
  install template is empty), \<open>installs\<close> returns the inferred lines followed by the
  extra-install lines. The inferred lines are sorted and free of duplicates; they are
  the one line of an uploadable binary (from its name and its extra attribute
  \<open>Binary\<close>), one line per bundled binary of an uploadable archive, and none for any
  other kind; and they are the same for two artifacts that agree on the kind, the
  name and the extra attributes \<open>Binary\<close> and \<open>Binaries\<close>.
\<close>

theorem installs_inferred:
  assumes "tmplApplyArtifact e ctx art (brew_ExtraInstall cfg) = Inr extraInstall"
    and "tmplApplyArtifact e ctx art (brew_Install cfg) = Inr []"
  shows "installs e ctx cfg art = Inr (sort (keys (installMap art)) @ split extraInstall)
    \<and> sorted (sort (keys (installMap art)))
    \<and> distinct (sort (keys (installMap art)))
    \<and> (art_Type art = UploadableBinary \<longrightarrow>
          sort (keys (installMap art)) =
            [''bin.install '' @ Quote (art_Name art) @ '' => ''
               @ Quote (ExtraOr (ExtraBinary (art_Extra art)) (art_Name art))])
    \<and> (art_Type art = UploadableArchive \<longrightarrow>
          set (sort (keys (installMap art))) =
            (\<lambda>bin. ''bin.install '' @ Quote bin) ` set (ExtraOr (ExtraBinaries (art_Extra art)) []))
    \<and> (art_Type art \<noteq> UploadableBinary \<and> art_Type art \<noteq> UploadableArchive \<longrightarrow>
          sort (keys (installMap art)) = [])
    \<and> (\<forall>art'. art_Type art' = art_Type art \<and> art_Name art' = art_Name art
          \<and> ExtraBinary (art_Extra art') = ExtraBinary (art_Extra art)
          \<and> ExtraBinaries (art_Extra art') = ExtraBinaries (art_Extra art)
          \<longrightarrow> sort (keys (installMap art')) = sort (keys (installMap art)))"
proof -
  have run: "installs e ctx cfg art = Inr (sort (keys (installMap art)) @ split extraInstall)"
    using assms by (simp add: installs_def)
  have dist: "distinct (sort (keys (installMap art)))"
    using distinct_installMap [of art] by (simp add: keys_def)
  have bin: "sort (keys (installMap art)) =
            [''bin.install '' @ Quote (art_Name art) @ '' => ''
               @ Quote (ExtraOr (ExtraBinary (art_Extra art)) (art_Name art))]"
    if "art_Type art = UploadableBinary"
    using that by (simp add: installMap_def keys_def Let_def)
  have arch: "set (sort (keys (installMap art))) =
            (\<lambda>bin. ''bin.install '' @ Quote bin) ` set (ExtraOr (ExtraBinaries (art_Extra art)) [])"
    if "art_Type art = UploadableArchive"
    using that set_installMap_archive [of "\<lambda>bin. ''bin.install '' @ Quote bin" "[]"]
    by (simp add: installMap_def keys_def)
  have other: "sort (keys (installMap art)) = []"
    if "art_Type art \<noteq> UploadableBinary \<and> art_Type art \<noteq> UploadableArchive"
    using that by (cases "art_Type art") (simp_all add: installMap_def keys_def)
  have same: "sort (keys (installMap art')) = sort (keys (installMap art))"
    if "art_Type art' = art_Type art \<and> art_Name art' = art_Name art
          \<and> ExtraBinary (art_Extra art') = ExtraBinary (art_Extra art)
          \<and> ExtraBinaries (art_Extra art') = ExtraBinaries (art_Extra art)" for art'
    using that by (cases "art_Type art") (simp_all add: installMap_def)
  have srt: "sorted (sort (keys (installMap art)))"
    by simp
  from run srt dist bin arch other same show ?thesis
    by blast
qed

theorem installs_inferred_witness:
  "installs okEnv (contextOf [] []) tapRecipe renamedBinary
     = Inr [''bin.install '' @ Quote ''foo'' @ '' => '' @ Quote ''bar'']"
proof -
  have a: "tmplApplyArtifact okEnv (contextOf [] []) renamedBinary (brew_ExtraInstall tapRecipe) = Inr []"
    by (simp add: okEnv_def tapRecipe_def)
  have b: "tmplApplyArtifact okEnv (contextOf [] []) renamedBinary (brew_Install tapRecipe) = Inr []"
    by (simp add: okEnv_def tapRecipe_def)
  have c: "art_Type renamedBinary = UploadableBinary" "art_Name renamedBinary = ''foo''"
    "ExtraBinary (art_Extra renamedBinary) = Some ''bar''"
    by (simp_all add: renamedBinary_def binaryFor_def noExtras_def)
  have d: "split [] = []"
    by (simp add: split_def Split_def TrimSpace_def splitFrom.simps)
  from installs_inferred [OF a b] c d show ?thesis
    by (simp add: ExtraOr_def)
qed

section \<open>Properties of the assembly\<close>

lemma dataForLoop_step:
  assumes "dataForLoop e ctx cl cfg (art # arts) result counts = (r, None)"
  shows "\<exists>cfg' result'.
           dataForLoop e ctx cl cfg' arts result' (increment counts (art_Goos art @ art_Goarch art)) = (r, None)"
  using assms by (simp add: Let_def split: sum.splits if_splits) blast+

lemma map_of_increment:
  "(case map_of (increment counts key) k of None \<Rightarrow> 0 | Some v \<Rightarrow> v) =
     (case map_of counts k of None \<Rightarrow> 0 | Some v \<Rightarrow> v) + (if key = k then 1 else 0)"
  by (simp add: increment_def update_conv')

lemma dataForLoop_counts:
  "dataForLoop e ctx cl cfg arts result counts = ((result', counts'), None) \<Longrightarrow>
   (case map_of counts' k of None \<Rightarrow> 0 | Some v \<Rightarrow> v) =
     (case map_of counts k of None \<Rightarrow> 0 | Some v \<Rightarrow> v)
       + length (filter (\<lambda>a. art_Goos a @ art_Goarch a = k) arts)"
proof (induction arts arbitrary: cfg result counts)
  case Nil
  then show ?case by simp
next
  case (Cons art arts)
  from dataForLoop_step [OF Cons.prems] obtain cfg' result'' where
    "dataForLoop e ctx cl cfg' arts result'' (increment counts (art_Goos art @ art_Goarch art))
       = ((result', counts'), None)"
    by blast
  from Cons.IH [OF this] show ?case
    by (simp add: map_of_increment)
qed

lemma duplicate_counted:
  "\<not> distinct (map f xs) \<Longrightarrow> \<exists>x\<in>set xs. 2 \<le> length (filter (\<lambda>a. f a = f x) xs)"
proof (induction xs)
  case Nil
  then show ?case by simp
next
  case (Cons y ys)
  show ?case
  proof (cases "f y \<in> f ` set ys")
    case True
    then obtain z where z: "z \<in> set ys" "f z = f y"
      by auto
    then have "filter (\<lambda>a. f a = f y) ys \<noteq> []"
      by (auto simp: filter_empty_conv)
    then have "1 \<le> length (filter (\<lambda>a. f a = f y) ys)"
      by (cases "filter (\<lambda>a. f a = f y) ys") simp_all
    then show ?thesis
      by (intro bexI [of _ y]) simp_all
  next
    case False
    with Cons.prems have "\<not> distinct (map f ys)"
      by simp
    from Cons.IH [OF this] obtain x where "x \<in> set ys" "2 \<le> length (filter (\<lambda>a. f a = f x) ys)"
      by blast
    then show ?thesis
      by (intro bexI [of _ x]) auto
  qed
qed

lemma length_filter_mono:
  "(\<And>x. P x \<Longrightarrow> Q x) \<Longrightarrow> length (filter P xs) \<le> length (filter Q xs)"
  by (induction xs) auto

lemma dataFor_context:
  "snd (dataFor e ctx cfg cl arts) =
     ctx\<lparr>slices := (slices ctx)(brew_Dependencies cfg :=
        sortSlice (\<lambda>deps i j. dep_Name (deps ! i) < dep_Name (deps ! j))
          (slices ctx (brew_Dependencies cfg)))\<rparr>"
  by (simp add: dataFor_def Let_def split: prod.split option.split)

lemma buildFormula_context:
  "snd (buildFormula e ctx brew cl arts) = snd (dataFor e ctx brew cl arts)"
  by (simp add: buildFormula_def split: prod.split option.split)

lemma buildFormula_error:
  "snd (fst (dataFor e ctx brew cl arts)) = Some err \<Longrightarrow> fst (buildFormula e ctx brew cl arts) = Inl err"
  by (auto simp: buildFormula_def split: prod.split option.split)

lemma doRun_buildFormula_error:
  assumes "ref_Name (brew_Repository brew) \<noteq> []"
    and "filter (And (brewFilters brew)) (Artifacts ctx) = archives"
    and "archives \<noteq> []"
    and "tmplApply e ctx (brew_Name brew) = Inr name"
    and "TemplateRef e ctx (brew_Repository brew) = Inr ref"
    and "tmplApply e ctx (brew_SkipUpload brew) = Inr skipUpload"
    and "fst (buildFormula e ctx (brew\<lparr>brew_Name := name, brew_Repository := ref, brew_SkipUpload := skipUpload\<rparr>) cl archives) = Inl err"
  shows "doRun e ctx brew cl =
           (Some err, snd (buildFormula e ctx (brew\<lparr>brew_Name := name, brew_Repository := ref, brew_SkipUpload := skipUpload\<rparr>) cl archives))"
proof -
  obtain r c where rc: "buildFormula e ctx (brew\<lparr>brew_Name := name, brew_Repository := ref, brew_SkipUpload := skipUpload\<rparr>) cl archives = (r, c)"
    by (cases "buildFormula e ctx (brew\<lparr>brew_Name := name, brew_Repository := ref, brew_SkipUpload := skipUpload\<rparr>) cl archives")
  with assms(7) have r: "r = Inl err" by simp
  from assms(1-6) rc r show ?thesis
    by (simp add: doRun_def Let_def)
qed

lemma arm64_selected:
  "filter (And (brewFilters tapRecipe)) [binaryFor ''darwin'' ''arm64'', binaryFor ''darwin'' ''arm64'']
     = [binaryFor ''darwin'' ''arm64'', binaryFor ''darwin'' ''arm64'']"
  by (simp add: And_def Or_def brewFilters_def tapRecipe_def binaryFor_def ByGoos_def ByGoarch_def
      ByType_def OnlyReplacingUnibins_def ExtraOr_def noExtras_def)

section \<open>Order of the package lists\<close>

text \<open>Within one list every package has the same operating system, so \<open>lessFnFor\<close>,
  which asks for a greater operating system and a greater architecture, holds for no
  two positions, and the sort moves nothing.\<close>

lemma insertionInner_same_os:
  "\<forall>p\<in>set data. pkg_OS p = os \<Longrightarrow> j < length data \<Longrightarrow> insertionInner lessFnFor data j = data"
  by (cases j) (simp_all add: lessFnFor_def)

lemma sortSlice_same_os:
  assumes "\<forall>p\<in>set data. pkg_OS p = os"
  shows "sortSlice lessFnFor data = data"
proof -
  have "foldl (insertionInner lessFnFor) data js = data" if "\<forall>j\<in>set js. j < length data" for js
    using that by (induction js) (simp_all add: insertionInner_same_os [OF assms])
  then show ?thesis
    by (simp add: sortSlice_def)
qed

text \<open>
  Claim C3, on the code. For two macOS binaries given as \<open>amd64\<close> then \<open>arm64\<close>,
  \<open>dataFor\<close> succeeds and lists the packages in that order, which is ascending in the
  architecture, not descending; given in the other order, it lists them in the other
  order. The lists are not sorted by architecture, and their order follows the input.
\<close>

theorem dataFor_keeps_input_order:
  "snd (fst (dataFor okEnv (contextOf [tapRecipe] []) tapRecipe gh
               [binaryFor ''darwin'' ''amd64'', binaryFor ''darwin'' ''arm64''])) = None
   \<and> map pkg_Arch (td_MacOSPackages (fst (fst (dataFor okEnv (contextOf [tapRecipe] []) tapRecipe gh
               [binaryFor ''darwin'' ''amd64'', binaryFor ''darwin'' ''arm64''])))) = [''amd64'', ''arm64'']
   \<and> map pkg_Arch (td_MacOSPackages (fst (fst (dataFor okEnv (contextOf [tapRecipe] []) tapRecipe gh
               [binaryFor ''darwin'' ''arm64'', binaryFor ''darwin'' ''amd64''])))) = [''arm64'', ''amd64'']
   \<and> ''amd64'' < ''arm64''"
  by code_simp

section \<open>What a run changes\<close>

lemma swap_mset: "i < length data \<Longrightarrow> j < length data \<Longrightarrow> mset (swap data i j) = mset data"
  unfolding swap_def by (simp add: mset_swap)

lemma insertionInner_mset:
  "j < length data \<Longrightarrow>
   mset (insertionInner lessFn data j) = mset data \<and> length (insertionInner lessFn data j) = length data"
proof (induction j arbitrary: data)
  case 0
  show ?case by simp
next
  case (Suc j)
  have len: "length (swap data (Suc j) j) = length data"
    by (simp add: swap_def)
  from Suc.prems have "j < length (swap data (Suc j) j)"
    by (simp add: len)
  from Suc.IH [OF this] Suc.prems show ?case
    by (simp add: swap_mset len)
qed

lemma sortSlice_mset: "mset (sortSlice lessFn data) = mset data"
proof -
  have "mset (foldl (insertionInner lessFn) data js) = mset data
        \<and> length (foldl (insertionInner lessFn) data js) = length data"
    if "\<forall>j\<in>set js. j < length data" for js
    using that
  proof (induction js arbitrary: data)
    case Nil
    show ?case by simp
  next
    case (Cons j js)
    then have j: "j < length data" by simp
    note step = insertionInner_mset [OF j, of lessFn]
    have "\<forall>i\<in>set js. i < length (insertionInner lessFn data j)"
      using Cons.prems step by simp
    from Cons.IH [OF this] step show ?case by simp
  qed
  then show ?thesis
    by (simp add: sortSlice_def)
qed

lemma buildFormula_result:
  "buildFormula e ctx brew cl arts = (r, c) \<Longrightarrow>
   c = ctx\<lparr>slices := (slices ctx)(brew_Dependencies brew :=
        sortSlice (\<lambda>deps i j. dep_Name (deps ! i) < dep_Name (deps ! j))
          (slices ctx (brew_Dependencies brew)))\<rparr>"
  using buildFormula_context [of e ctx brew cl arts] dataFor_context [of e ctx brew cl arts]
  by simp

lemma buildFormula_eq:
  "(buildFormula e ctx brew cl arts = (r, c)) =
     (fst (buildFormula e ctx brew cl arts) = r
      \<and> c = ctx\<lparr>slices := (slices ctx)(brew_Dependencies brew :=
            sortSlice (\<lambda>deps i j. dep_Name (deps ! i) < dep_Name (deps ! j))
              (slices ctx (brew_Dependencies brew)))\<rparr>)"
  using buildFormula_result [of e ctx brew cl arts]
  by (cases "buildFormula e ctx brew cl arts") auto

lemma doRun_Brews: "Brews (snd (doRun e ctx brew cl)) = Brews ctx"
  by (auto simp: doRun_def Let_def buildFormula_eq split: sum.splits option.splits prod.splits)

lemma doRun_slices: "mset (slices (snd (doRun e ctx brew cl)) a) = mset (slices ctx a)"
  by (auto simp: doRun_def Let_def sortSlice_mset buildFormula_eq
      split: sum.splits option.splits prod.splits)

lemma doRun_Artifacts_error:
  "fst (doRun e ctx brew cl) \<noteq> None \<Longrightarrow> Artifacts (snd (doRun e ctx brew cl)) = Artifacts ctx"
  by (auto simp: doRun_def Let_def buildFormula_eq
      split: sum.splits option.splits prod.splits if_splits)

lemma doRun_Artifacts_success:
  "fst (doRun e ctx brew cl) = None \<Longrightarrow>
   \<exists>name ref skipUpload formula.
      tmplApply e ctx (brew_Name brew) = Inr name
      \<and> TemplateRef e ctx (brew_Repository brew) = Inr ref
      \<and> tmplApply e ctx (brew_SkipUpload brew) = Inr skipUpload
      \<and> Artifacts (snd (doRun e ctx brew cl)) = Artifacts ctx @ [formula]
      \<and> art_Type formula = BrewTap
      \<and> brewConfigExtra (art_Extra formula)
          = Some (brew\<lparr>brew_Name := name, brew_Repository := ref, brew_SkipUpload := skipUpload\<rparr>)"
  by (auto simp: doRun_def Let_def buildFormula_eq
      split: sum.splits option.splits prod.splits if_splits)

lemma runAllLoop_Brews: "Brews (snd (runAllLoop e ctx brews cl)) = Brews ctx"
proof (induction brews arbitrary: ctx)
  case Nil
  show ?case by simp
next
  case (Cons brew brews)
  show ?case
    using doRun_Brews [of e ctx brew cl] Cons.IH [of "snd (doRun e ctx brew cl)"]
    by (cases "doRun e ctx brew cl") (auto split: option.splits)
qed

lemma runAllLoop_slices: "mset (slices (snd (runAllLoop e ctx brews cl)) a) = mset (slices ctx a)"
proof (induction brews arbitrary: ctx)
  case Nil
  show ?case by simp
next
  case (Cons brew brews)
  show ?case
    using doRun_slices [of e ctx brew cl a] Cons.IH [of "snd (doRun e ctx brew cl)"]
    by (cases "doRun e ctx brew cl") (auto split: option.splits)
qed

text \<open>
  Claim C10, as stated, fails: \<open>dataFor\<close> sorts the \<open>Dependencies\<close> slice of its copy of
  the recipe in place, and the copy shares its backing array with the recipe stored in
  the configuration. After \<open>runAll\<close> the dependencies of the stored recipe are in
  another order than before.
\<close>

theorem runAll_sorts_dependencies_counterexample:
  "fst (runAll okEnv oneRecipeContext gh) = None
   \<and> slices oneRecipeContext (brew_Dependencies (Brews oneRecipeContext ! 0))
       = [dependency ''zlib'', dependency ''curl'']
   \<and> slices (snd (runAll okEnv oneRecipeContext gh))
         (brew_Dependencies (Brews (snd (runAll okEnv oneRecipeContext gh)) ! 0))
       = [dependency ''curl'', dependency ''zlib'']"
  by code_simp

text \<open>
  Claim C10, amended. \<open>doRun\<close> works on a copy of the recipe: neither \<open>doRun\<close> nor
  \<open>runAll\<close> writes to a recipe stored in the configuration (every field is as before,
  the header of the \<open>Dependencies\<close> slice too), and every backing array of
  dependencies holds the same elements as before, their order aside. A run of \<open>doRun\<close>
  that fails registers no artifact; a run that succeeds appends one formula artifact,
  whose extra attribute \<open>BrewConfig\<close> holds the recipe with the resolved name,
  repository reference and skip-upload value.
\<close>

theorem recipes_not_written_back:
  "Brews (snd (runAll e ctx cl)) = Brews ctx
   \<and> (\<forall>a. mset (slices (snd (runAll e ctx cl)) a) = mset (slices ctx a))
   \<and> Brews (snd (doRun e ctx brew cl)) = Brews ctx
   \<and> (fst (doRun e ctx brew cl) \<noteq> None \<longrightarrow> Artifacts (snd (doRun e ctx brew cl)) = Artifacts ctx)
   \<and> (fst (doRun e ctx brew cl) = None \<longrightarrow>
        (\<exists>name ref skipUpload formula.
           tmplApply e ctx (brew_Name brew) = Inr name
           \<and> TemplateRef e ctx (brew_Repository brew) = Inr ref
           \<and> tmplApply e ctx (brew_SkipUpload brew) = Inr skipUpload
           \<and> Artifacts (snd (doRun e ctx brew cl)) = Artifacts ctx @ [formula]
           \<and> art_Type formula = BrewTap
           \<and> brewConfigExtra (art_Extra formula)
               = Some (brew\<lparr>brew_Name := name, brew_Repository := ref, brew_SkipUpload := skipUpload\<rparr>)))"
proof (intro conjI allI impI)
  show "Brews (snd (runAll e ctx cl)) = Brews ctx"
    by (simp add: runAll_def runAllLoop_Brews)
  show "mset (slices (snd (runAll e ctx cl)) a) = mset (slices ctx a)" for a
    by (simp add: runAll_def runAllLoop_slices)
  show "Brews (snd (doRun e ctx brew cl)) = Brews ctx"
    by (rule doRun_Brews)
  show "Artifacts (snd (doRun e ctx brew cl)) = Artifacts ctx" if "fst (doRun e ctx brew cl) \<noteq> None"
    using that by (rule doRun_Artifacts_error)
  show "\<exists>name ref skipUpload formula.
           tmplApply e ctx (brew_Name brew) = Inr name
           \<and> TemplateRef e ctx (brew_Repository brew) = Inr ref
           \<and> tmplApply e ctx (brew_SkipUpload brew) = Inr skipUpload
           \<and> Artifacts (snd (doRun e ctx brew cl)) = Artifacts ctx @ [formula]
           \<and> art_Type formula = BrewTap
           \<and> brewConfigExtra (art_Extra formula)
               = Some (brew\<lparr>brew_Name := name, brew_Repository := ref, brew_SkipUpload := skipUpload\<rparr>)"
    if "fst (doRun e ctx brew cl) = None"
    using that by (rule doRun_Artifacts_success)
qed

theorem recipes_not_written_back_witness:
  "fst (doRun okEnv oneRecipeContext tapRecipe gh) = None
   \<and> Brews (snd (runAll okEnv oneRecipeContext gh)) = [tapRecipe]
   \<and> (\<exists>formula. Artifacts (snd (doRun okEnv oneRecipeContext tapRecipe gh))
                    = [binaryFor ''darwin'' ''arm64'', formula]
          \<and> art_Type formula = BrewTap
          \<and> brewConfigExtra (art_Extra formula) = Some tapRecipe)"
proof -
  have ok: "fst (doRun okEnv oneRecipeContext tapRecipe gh) = None"
    by code_simp
  have same: "tapRecipe\<lparr>brew_Name := name, brew_Repository := ref, brew_SkipUpload := skipUpload\<rparr> = tapRecipe"
    if "tmplApply okEnv oneRecipeContext (brew_Name tapRecipe) = Inr name"
      and "TemplateRef okEnv oneRecipeContext (brew_Repository tapRecipe) = Inr ref"
      and "tmplApply okEnv oneRecipeContext (brew_SkipUpload tapRecipe) = Inr skipUpload"
    for name ref skipUpload
    using that by (auto simp: okEnv_def)
  from recipes_not_written_back [of okEnv oneRecipeContext gh tapRecipe] ok same
  show ?thesis
    by (auto simp: oneRecipeContext_def contextOf_def)
qed

section \<open>Duplicate platforms\<close>

text \<open>The error that stops the loop of \<open>dataFor\<close> depends on the recipe, the artifacts
  and the collaborators only, not on the data and the counts collected so far.\<close>

lemma dataForLoop_error_indep:
  "snd (dataForLoop e ctx cl cfg arts r c) = snd (dataForLoop e ctx cl cfg arts r' c')"
proof (induction arts arbitrary: cfg r c r' c')
  case Nil
  show ?case by simp
next
  case (Cons art arts)
  show ?case
    by (simp (no_asm) add: Let_def split: sum.split) (intro conjI impI allI; rule Cons.IH)
qed

lemma duplicate_counts:
  assumes dup: "\<not> distinct (map (\<lambda>a. (art_Goos a, art_Goarch a)) artifacts)"
    and loop: "dataForLoop e c cl cfg artifacts result [] = ((result', counts'), None)"
  shows "list_ex (\<lambda>(key, v). v > 1) counts'"
proof -
  from duplicate_counted [OF dup] obtain x :: artifact where
    x: "2 \<le> length (filter (\<lambda>a. (art_Goos a, art_Goarch a) = (art_Goos x, art_Goarch x)) artifacts)"
    by blast
  define k where "k = art_Goos x @ art_Goarch x"
  have "length (filter (\<lambda>a. (art_Goos a, art_Goarch a) = (art_Goos x, art_Goarch x)) artifacts)
          \<le> length (filter (\<lambda>a. art_Goos a @ art_Goarch a = k) artifacts)"
    by (rule length_filter_mono) (simp add: k_def)
  with x have two: "2 \<le> length (filter (\<lambda>a. art_Goos a @ art_Goarch a = k) artifacts)"
    by linarith
  from dataForLoop_counts [OF loop, of k] two
  have "2 \<le> (case map_of counts' k of None \<Rightarrow> 0 | Some v \<Rightarrow> v)"
    by simp
  then obtain v where "map_of counts' k = Some v" "2 \<le> v"
    by (cases "map_of counts' k") simp_all
  then have "(k, v) \<in> set counts'" "1 < v"
    by (auto dest: map_of_SomeD)
  then show ?thesis
    unfolding list_ex_iff by force
qed

lemma dataFor_duplicate_error:
  assumes dup: "\<not> distinct (map (\<lambda>a. (art_Goos a, art_Goarch a)) artifacts)"
  shows "snd (fst (dataFor e ctx cfg cl artifacts)) =
     (case snd (dataForLoop e (snd (dataFor e ctx cfg cl artifacts)) cl cfg artifacts result counts) of
        Some err \<Rightarrow> Some err
      | None \<Rightarrow> Some ErrMultipleArchivesSameOS)"
proof -
  define lo where
    "lo = snd (dataForLoop e (snd (dataFor e ctx cfg cl artifacts)) cl cfg artifacts result counts)"
  have same: "x = lo"
    if "dataForLoop e (ctx\<lparr>slices := (slices ctx)(brew_Dependencies cfg :=
          sortSlice (\<lambda>deps i j. dep_Name (deps ! i) < dep_Name (deps ! j))
            (slices ctx (brew_Dependencies cfg)))\<rparr>) cl cfg artifacts r [] = (p, x)" for r p x
    using that dataForLoop_error_indep [of e "snd (dataFor e ctx cfg cl artifacts)" cl cfg artifacts r "[]" result counts]
    unfolding lo_def dataFor_context by simp
  have "snd (fst (dataFor e ctx cfg cl artifacts)) =
          (case lo of Some err \<Rightarrow> Some err | None \<Rightarrow> Some ErrMultipleArchivesSameOS)"
    unfolding dataFor_def Let_def
    by (auto split: prod.splits option.splits dest: same duplicate_counts [OF dup])
  then show ?thesis
    by (simp add: lo_def)
qed

lemma dataFor_duplicate_fails:
  assumes dup: "\<not> distinct (map (\<lambda>a. (art_Goos a, art_Goarch a)) artifacts)"
  shows "snd (fst (dataFor e ctx cfg cl artifacts)) \<noteq> None"
  using dataFor_duplicate_error [OF dup, of e ctx cfg cl "fst (fst (dataFor e ctx cfg cl []))" "[]"]
  by (simp split: option.splits)

lemma buildFormula_duplicate_fails:
  assumes dup: "\<not> distinct (map (\<lambda>a. (art_Goos a, art_Goarch a)) artifacts)"
  shows "fst (buildFormula e ctx brew cl artifacts) \<noteq> Inr content"
  using dataFor_duplicate_fails [OF dup, of e ctx brew cl]
  by (auto simp: buildFormula_def split: prod.splits option.splits)

lemma doRun_duplicate_fails:
  assumes dup: "\<not> distinct (map (\<lambda>a. (art_Goos a, art_Goarch a)) artifacts)"
    and named: "ref_Name (brew_Repository brew) \<noteq> []"
    and selected: "filter (And (brewFilters brew)) (Artifacts ctx) = artifacts"
  shows "fst (doRun e ctx brew cl) \<noteq> None
    \<and> writtenFiles (snd (doRun e ctx brew cl)) = writtenFiles ctx
    \<and> madeDirs (snd (doRun e ctx brew cl)) = madeDirs ctx
    \<and> Artifacts (snd (doRun e ctx brew cl)) = Artifacts ctx"
  using named selected buildFormula_duplicate_fails [OF dup, of e ctx _ cl]
  by (auto simp: doRun_def Let_def buildFormula_eq split: sum.splits option.splits prod.splits)

lemma doRun_returns_dataFor_error:
  assumes dup: "\<not> distinct (map (\<lambda>a. (art_Goos a, art_Goarch a)) artifacts)"
    and named: "ref_Name (brew_Repository brew) \<noteq> []"
    and selected: "filter (And (brewFilters brew)) (Artifacts ctx) = artifacts"
    and name: "tmplApply e ctx (brew_Name brew) = Inr name"
    and ref: "TemplateRef e ctx (brew_Repository brew) = Inr ref"
    and skipUpload: "tmplApply e ctx (brew_SkipUpload brew) = Inr skipUpload"
  shows "fst (doRun e ctx brew cl) =
    snd (fst (dataFor e ctx (brew\<lparr>brew_Name := name, brew_Repository := ref, brew_SkipUpload := skipUpload\<rparr>) cl artifacts))"
proof -
  define resolved where
    "resolved = brew\<lparr>brew_Name := name, brew_Repository := ref, brew_SkipUpload := skipUpload\<rparr>"
  obtain err where err: "snd (fst (dataFor e ctx resolved cl artifacts)) = Some err"
    using dataFor_duplicate_fails [OF dup, of e ctx resolved cl] by blast
  have nonempty: "artifacts \<noteq> []"
    using dup by auto
  have "fst (buildFormula e ctx resolved cl artifacts) = Inl err"
    using err by (rule buildFormula_error)
  then have "doRun e ctx brew cl = (Some err, snd (buildFormula e ctx resolved cl artifacts))"
    using named selected nonempty name ref skipUpload unfolding resolved_def
    by (intro doRun_buildFormula_error) simp_all
  with err show ?thesis
    by (simp add: resolved_def)
qed

text \<open>
  Claim C1, as stated, fails: an error of a step of the loop (here the checksum of the
  first artifact) is returned at once, before the counts are examined, so two
  artifacts for one platform do not always give the dedicated error.
\<close>

theorem checksum_fails_first_counterexample:
  "\<not> distinct (map (\<lambda>a. (art_Goos a, art_Goarch a))
        [binaryFor ''darwin'' ''arm64'', binaryFor ''darwin'' ''arm64''])
   \<and> snd (fst (dataFor noChecksumEnv (contextOf [tapRecipe] []) tapRecipe gh
        [binaryFor ''darwin'' ''arm64'', binaryFor ''darwin'' ''arm64'']))
       = Some (ErrMessage ''open dist/foo: no such file or directory'')
   \<and> fst (doRun noChecksumEnv
        (contextOf [tapRecipe] [binaryFor ''darwin'' ''arm64'', binaryFor ''darwin'' ''arm64'']) tapRecipe gh)
       = Some (ErrMessage ''open dist/foo: no such file or directory'')"
  by code_simp

text \<open>
  Claim C1, amended. If two or more artifacts of the list share one pair of operating
  system and architecture, \<open>dataFor\<close> fails: with the error of the step that stopped
  its loop over the artifacts, if one did (the loop runs in the context that \<open>dataFor\<close>
  returns, whatever data and counts it starts from), and with
  \<open>ErrMultipleArchivesSameOS\<close> otherwise. A run of \<open>doRun\<close> that selects such a list
  returns an error and makes no directory, writes no file and registers no artifact;
  when the name, the repository reference and the skip-upload value of the recipe are
  resolved, its error is the one of \<open>dataFor\<close> for the resolved recipe.
\<close>

theorem duplicate_os_arch_fails:
  assumes dup: "\<not> distinct (map (\<lambda>a. (art_Goos a, art_Goarch a)) artifacts)"
  shows "snd (fst (dataFor e ctx cfg cl artifacts)) =
      (case snd (dataForLoop e (snd (dataFor e ctx cfg cl artifacts)) cl cfg artifacts result counts) of
         Some err \<Rightarrow> Some err
       | None \<Rightarrow> Some ErrMultipleArchivesSameOS)
    \<and> (ref_Name (brew_Repository brew) \<noteq> []
         \<and> filter (And (brewFilters brew)) (Artifacts ctx) = artifacts
       \<longrightarrow> fst (doRun e ctx brew cl) \<noteq> None
           \<and> writtenFiles (snd (doRun e ctx brew cl)) = writtenFiles ctx
           \<and> madeDirs (snd (doRun e ctx brew cl)) = madeDirs ctx
           \<and> Artifacts (snd (doRun e ctx brew cl)) = Artifacts ctx
           \<and> (\<forall>name ref skipUpload.
                 tmplApply e ctx (brew_Name brew) = Inr name
                 \<and> TemplateRef e ctx (brew_Repository brew) = Inr ref
                 \<and> tmplApply e ctx (brew_SkipUpload brew) = Inr skipUpload
               \<longrightarrow> fst (doRun e ctx brew cl) =
                     snd (fst (dataFor e ctx
                       (brew\<lparr>brew_Name := name, brew_Repository := ref, brew_SkipUpload := skipUpload\<rparr>)
                       cl artifacts))))"
proof (intro conjI impI allI)
  show "snd (fst (dataFor e ctx cfg cl artifacts)) =
      (case snd (dataForLoop e (snd (dataFor e ctx cfg cl artifacts)) cl cfg artifacts result counts) of
         Some err \<Rightarrow> Some err
       | None \<Rightarrow> Some ErrMultipleArchivesSameOS)"
    by (rule dataFor_duplicate_error [OF dup])
next
  assume run: "ref_Name (brew_Repository brew) \<noteq> []
         \<and> filter (And (brewFilters brew)) (Artifacts ctx) = artifacts"
  then have named: "ref_Name (brew_Repository brew) \<noteq> []"
    and selected: "filter (And (brewFilters brew)) (Artifacts ctx) = artifacts"
    by simp_all
  note fails = doRun_duplicate_fails [OF dup named selected, of e cl]
  from fails show "fst (doRun e ctx brew cl) \<noteq> None" by simp
  from fails show "writtenFiles (snd (doRun e ctx brew cl)) = writtenFiles ctx" by simp
  from fails show "madeDirs (snd (doRun e ctx brew cl)) = madeDirs ctx" by simp
  from fails show "Artifacts (snd (doRun e ctx brew cl)) = Artifacts ctx" by simp
  fix name ref skipUpload
  assume "tmplApply e ctx (brew_Name brew) = Inr name
       \<and> TemplateRef e ctx (brew_Repository brew) = Inr ref
       \<and> tmplApply e ctx (brew_SkipUpload brew) = Inr skipUpload"
  then show "fst (doRun e ctx brew cl) =
      snd (fst (dataFor e ctx
        (brew\<lparr>brew_Name := name, brew_Repository := ref, brew_SkipUpload := skipUpload\<rparr>) cl artifacts))"
    using doRun_returns_dataFor_error [OF dup named selected] by blast
qed

theorem duplicate_os_arch_fails_witness:
  "fst (doRun okEnv (contextOf [tapRecipe] [binaryFor ''darwin'' ''arm64'', binaryFor ''darwin'' ''arm64''])
          tapRecipe gh) = Some ErrMultipleArchivesSameOS
   \<and> writtenFiles (snd (doRun okEnv (contextOf [tapRecipe] [binaryFor ''darwin'' ''arm64'', binaryFor ''darwin'' ''arm64''])
          tapRecipe gh)) = []"
proof -
  define arts where "arts = [binaryFor ''darwin'' ''arm64'', binaryFor ''darwin'' ''arm64'']"
  define c where "c = contextOf [tapRecipe] arts"
  have dup: "\<not> distinct (map (\<lambda>a. (art_Goos a, art_Goarch a)) arts)"
    by (simp add: arts_def)
  have run: "ref_Name (brew_Repository tapRecipe) \<noteq> []
         \<and> filter (And (brewFilters tapRecipe)) (Artifacts c) = arts"
    using arm64_selected by (simp add: tapRecipe_def contextOf_def arts_def c_def)
  have resolved: "tmplApply okEnv c (brew_Name tapRecipe) = Inr (brew_Name tapRecipe)
       \<and> TemplateRef okEnv c (brew_Repository tapRecipe) = Inr (brew_Repository tapRecipe)
       \<and> tmplApply okEnv c (brew_SkipUpload tapRecipe) = Inr (brew_SkipUpload tapRecipe)"
    by (simp add: okEnv_def)
  have loop: "snd (dataForLoop okEnv (snd (dataFor okEnv c tapRecipe gh arts)) gh tapRecipe arts
                (fst (fst (dataFor okEnv c tapRecipe gh []))) []) = None"
    unfolding arts_def c_def by code_simp
  from duplicate_os_arch_fails [OF dup, of okEnv c tapRecipe gh
      "fst (fst (dataFor okEnv c tapRecipe gh []))" "[]" tapRecipe] run resolved loop
  show ?thesis
    unfolding arts_def c_def by (simp add: contextOf_def)
qed

end
